theory Spec2Isabelle
  imports Main
begin

section \<open>JavaScript values and built-ins used by the adapter\<close>

text \<open>
  The adapters are written in TypeScript and handle untyped request bodies, query
  parameters and header values.  A value is one of the shapes the source tests for with
  \<^verbatim>\<open>typeof\<close> and \<^verbatim>\<open>instanceof\<close>.  A plain object is the list of its own enumerable
  properties in insertion order (keys unique); a \<^verbatim>\<open>Blob\<close> carries its \<^verbatim>\<open>type\<close> and bytes, and
  is a \<^verbatim>\<open>File\<close> exactly when it carries a name.  A \<^verbatim>\<open>FormData\<close> is its entry list (an entry
  value is a string or a blob); a \<^verbatim>\<open>URLSearchParams\<close> is its list of string pairs, where
  duplicates of a key may occur.  Numbers are only ever passed through, never computed with.
\<close>

datatype blob = Blob (file_name: "string option") (blob_type: string) (blob_bytes: "nat list")

datatype fd_value = FdString string | FdBlob blob

datatype jsval =
    JUndefined
  | JNull
  | JBool bool
  | JNumber int
  | JString string
  | JObject "(string \<times> jsval) list"
  | JArray "jsval list"
  | JBuffer "nat list"
  | JArrayBuffer "nat list"
  | JBlob blob
  | JFormData "(string \<times> fd_value) list"
  | JURLSearchParams "(string \<times> string) list"

text \<open>Truthiness, as used by \<^verbatim>\<open>!x\<close>, \<^verbatim>\<open>x || y\<close> and \<^verbatim>\<open>x && y\<close>.\<close>

fun truthy :: "jsval \<Rightarrow> bool" where
  "truthy JUndefined = False"
| "truthy JNull = False"
| "truthy (JBool b) = b"
| "truthy (JNumber n) = (n \<noteq> 0)"
| "truthy (JString s) = (s \<noteq> [])"
| "truthy _ = True"

text \<open>\<^verbatim>\<open>s || d\<close> on an optional string: an absent or empty string is falsy.\<close>

fun or_else :: "string option \<Rightarrow> string \<Rightarrow> string" where
  "or_else None d = d"
| "or_else (Some s) d = (if s = [] then d else s)"

text \<open>\<^verbatim>\<open>obj[key] = value\<close> on a plain object: overwrite in place or append.\<close>

fun obj_set :: "string \<Rightarrow> 'v \<Rightarrow> (string \<times> 'v) list \<Rightarrow> (string \<times> 'v) list" where
  "obj_set k v [] = [(k, v)]"
| "obj_set k v (p # ps) = (if fst p = k then (k, v) # ps else p # obj_set k v ps)"

text \<open>\<^verbatim>\<open>Object.fromEntries(pairs)\<close>: assign the pairs in order, so the last value of a key wins.\<close>

definition fromEntries :: "(string \<times> 'v) list \<Rightarrow> (string \<times> 'v) list" where
  "fromEntries ps = foldl (\<lambda>acc p. obj_set (fst p) (snd p) acc) [] ps"

text \<open>ASCII case mapping (\<^verbatim>\<open>toLowerCase\<close>, \<^verbatim>\<open>toUpperCase\<close>) and \<^verbatim>\<open>String.prototype.includes\<close>.\<close>

definition lower_of :: "char \<Rightarrow> char" where
  "lower_of c =
     (case map_of (zip ''ABCDEFGHIJKLMNOPQRSTUVWXYZ'' ''abcdefghijklmnopqrstuvwxyz'') c of
        None \<Rightarrow> c | Some d \<Rightarrow> d)"

definition upper_of :: "char \<Rightarrow> char" where
  "upper_of c =
     (case map_of (zip ''abcdefghijklmnopqrstuvwxyz'' ''ABCDEFGHIJKLMNOPQRSTUVWXYZ'') c of
        None \<Rightarrow> c | Some d \<Rightarrow> d)"

definition toLowerCase :: "string \<Rightarrow> string" where
  "toLowerCase s = map lower_of s"

definition toUpperCase :: "string \<Rightarrow> string" where
  "toUpperCase s = map upper_of s"

fun str_includes :: "string \<Rightarrow> string \<Rightarrow> bool" where
  "str_includes [] sub = (sub = [])"
| "str_includes (c # cs) sub = (take (length sub) (c # cs) = sub \<or> str_includes cs sub)"

text \<open>Decimal rendering of an integer, as a template literal renders an integral number.\<close>

fun string_of_nat :: "nat \<Rightarrow> string" where
  "string_of_nat n =
     (if n < 10 then [''0123456789'' ! n]
      else string_of_nat (n div 10) @ [''0123456789'' ! (n mod 10)])"

declare string_of_nat.simps [simp del]

definition number_to_string :: "int \<Rightarrow> string" where
  "number_to_string i = (if i < 0 then CHR ''-'' # string_of_nat (nat (- i)) else string_of_nat (nat i))"

section \<open>src/utils/shared.ts\<close>

text \<open>
  \<^verbatim>\<open>ABSOLUTE_URL_REGEX = /^([a-z][a-z\d+\-.]*:)?\/\//i\<close>.  The optional group is a letter, then
  any run of letters, digits, \<^verbatim>\<open>+\<close>, \<^verbatim>\<open>-\<close>, \<^verbatim>\<open>.\<close>, then a colon; since the colon is not in the
  run's character class, the greedy run is the only candidate and no backtracking inside
  the group can succeed.  The group may also be skipped, which leaves \<^verbatim>\<open>^//\<close>.
\<close>

definition is_letter :: "char \<Rightarrow> bool" where
  "is_letter c = (c \<in> set ''abcdefghijklmnopqrstuvwxyzABCDEFGHIJKLMNOPQRSTUVWXYZ'')"

definition is_scheme_char :: "char \<Rightarrow> bool" where
  "is_scheme_char c = (is_letter c \<or> c \<in> set ''0123456789+-.'')"

definition isAbsoluteURL :: "string \<Rightarrow> bool" where
  "isAbsoluteURL url =
     (take 2 url = ''//'' \<or>
      (case url of
         [] \<Rightarrow> False
       | c # cs \<Rightarrow> is_letter c \<and> take 3 (dropWhile is_scheme_char cs) = ''://''))"

text \<open>
  \<^verbatim>\<open>replace(/\/+$/, '')\<close> removes the whole trailing run of slashes and
  \<^verbatim>\<open>replace(/^\/+/, '')\<close> the whole leading run.
\<close>

definition strip_trailing_slashes :: "string \<Rightarrow> string" where
  "strip_trailing_slashes s = rev (dropWhile (\<lambda>c. c = CHR ''/'') (rev s))"

definition strip_leading_slashes :: "string \<Rightarrow> string" where
  "strip_leading_slashes s = dropWhile (\<lambda>c. c = CHR ''/'') s"

definition combineURLs :: "string \<Rightarrow> string \<Rightarrow> string" where
  "combineURLs baseURL relativeURL =
     (if relativeURL = [] then baseURL
      else strip_trailing_slashes baseURL @ ''/'' @ strip_leading_slashes relativeURL)"

definition getStatusText :: "int \<Rightarrow> string" where
  "getStatusText status =
     (case map_of
        [(100, ''Continue''), (101, ''Switching Protocols''), (200, ''OK''), (201, ''Created''),
         (202, ''Accepted''), (204, ''No Content''), (301, ''Moved Permanently''),
         (302, ''Found''), (304, ''Not Modified''), (400, ''Bad Request''),
         (401, ''Unauthorized''), (403, ''Forbidden''), (404, ''Not Found''),
         (405, ''Method Not Allowed''), (408, ''Request Timeout''), (409, ''Conflict''),
         (410, ''Gone''), (422, ''Unprocessable Entity''), (429, ''Too Many Requests''),
         (500, ''Internal Server Error''), (501, ''Not Implemented''), (502, ''Bad Gateway''),
         (503, ''Service Unavailable''), (504, ''Gateway Timeout'')] status of
        None \<Rightarrow> ''Unknown'' | Some t \<Rightarrow> t)"

section \<open>The axios request descriptor\<close>

text \<open>
  \<^verbatim>\<open>InternalAxiosRequestConfig\<close>, restricted to the fields the adapter reads.  The headers
  object is given by what the source asks of it: its entries (\<^verbatim>\<open>toJSON()\<close> or the object's
  own properties) and the result of its \<^verbatim>\<open>get\<close> method, which is absent on a plain object.
\<close>

record axios_headers =
  entries :: "(string \<times> jsval) list"
  get :: "(string \<Rightarrow> jsval) option"

record abort_signal =
  aborted :: bool

record config =
  url :: "string option"
  baseURL :: "string option"
  "method" :: "string option"
  headers :: "axios_headers option"
  params :: jsval
  "data" :: jsval
  timeout :: "int option"
  maxRedirects :: "int option"
  responseType :: "string option"
  signal :: "abort_signal option"
  validateStatus :: "(int \<Rightarrow> bool) option"

text \<open>\<^verbatim>\<open>PlaywrightAdapterOptions\<close> (src/types.ts) and the options bag of \<^verbatim>\<open>APIRequestContext.fetch\<close>.\<close>

record adapter_options =
  failOnStatusCode :: "bool option"
  ignoreHTTPSErrors :: "bool option"
  maxRedirects :: "int option"
  maxRetries :: "int option"

record fetch_options =
  "method" :: "string option"
  headers :: "(string \<times> string) list option"
  "data" :: "jsval option"
  form :: "(string \<times> jsval) list option"
  multipart :: "jsval option"
  params :: "(string \<times> jsval) list option"
  timeout :: "int option"
  failOnStatusCode :: "bool option"
  ignoreHTTPSErrors :: "bool option"
  maxRedirects :: "int option"
  maxRetries :: "int option"

text \<open>The result of the body codecs: \<^verbatim>\<open>Pick<PlaywrightFetchOptions, 'data' | 'form' | 'multipart'>\<close>.\<close>

record body_options =
  "data" :: "jsval option"
  form :: "(string \<times> jsval) list option"
  multipart :: "jsval option"

section \<open>The executor's response, the caller's response and the errors\<close>

text \<open>
  Playwright's \<^verbatim>\<open>APIResponse\<close> is given by what its methods return (\<open>body_text\<close> is
  its \<^verbatim>\<open>text()\<close>, \<open>response_headers\<close> its \<^verbatim>\<open>headers()\<close>).  The three body accessors
  are asynchronous and may reject, so each is the outcome of awaiting it: the rejection
  (\<open>Inl\<close>) or the value.  No accessor is awaited twice within one call, so one outcome
  per accessor is all a call can observe.
\<close>

datatype accessor = Body | Text | Json

datatype 'e api_response = APIResponse
  (status: int)
  (statusText: string)
  (response_headers: "(string \<times> string) list")
  (body: "'e + nat list")
  (body_text: "'e + string")
  (json: "'e + jsval")

datatype 'e axios_response = AxiosResponse
  (response_data: jsval)
  (response_status: int)
  (response_statusText: string)
  (axios_response_headers: "(string \<times> string) list")
  (response_config: config)
  (response_request: "'e api_response")

text \<open>
  What a \<^verbatim>\<open>throw\<close> or a rejected promise carries: an \<^verbatim>\<open>AxiosError\<close> (message, code, config,
  request, response, cause), or any other error object, of which the source reads only the
  \<^verbatim>\<open>message\<close> property (\<open>None\<close> when it has none).
\<close>

datatype error_code = ERR_CANCELED | ERR_BAD_REQUEST | ERR_NETWORK

datatype thrown =
    AxiosError
      (message: string)
      (code: error_code)
      (error_config: config)
      (error_request: "thrown api_response option")
      (error_response: "thrown axios_response option")
      (cause: "thrown option")
  | Error (error_message: "string option")

text \<open>The web \<^verbatim>\<open>Response\<close> the fetch-style adapter returns, by its constructor's arguments.\<close>

record web_response =
  web_body :: "nat list"
  web_status :: int
  web_statusText :: string
  web_headers :: "(string \<times> string) list"

text \<open>
  Built-ins of the JavaScript platform whose results the adapter only passes on: the
  \<^verbatim>\<open>String(value)\<close> conversion, the entries of \<^verbatim>\<open>new URLSearchParams(text)\<close>, and the
  \<^verbatim>\<open>new Response(body, {status, statusText, headers})\<close> constructor, which may throw.
  \<^verbatim>\<open>String\<close> is total on the values above (none of them is a symbol or has a throwing
  \<^verbatim>\<open>toString\<close>).
\<close>

record platform =
  js_String :: "jsval \<Rightarrow> string"
  parse_query :: "string \<Rightarrow> (string \<times> string) list"
  new_Response :: "nat list \<Rightarrow> int \<Rightarrow> string \<Rightarrow> (string \<times> string) list \<Rightarrow> thrown + web_response"

text \<open>\<^verbatim>\<open>typeof\<close>, \<^verbatim>\<open>Buffer.isBuffer\<close> and \<^verbatim>\<open>Object.entries\<close> on the values above.\<close>

fun typeof :: "jsval \<Rightarrow> string" where
  "typeof JUndefined = ''undefined''"
| "typeof (JBool b) = ''boolean''"
| "typeof (JNumber n) = ''number''"
| "typeof (JString s) = ''string''"
| "typeof _ = ''object''"

fun isBuffer :: "jsval \<Rightarrow> bool" where
  "isBuffer (JBuffer bs) = True"
| "isBuffer _ = False"

fun indexed :: "nat \<Rightarrow> 'a list \<Rightarrow> (string \<times> 'a) list" where
  "indexed i [] = []"
| "indexed i (x # xs) = (string_of_nat i, x) # indexed (Suc i) xs"

fun Object_entries :: "jsval \<Rightarrow> (string \<times> jsval) list" where
  "Object_entries (JObject kvs) = kvs"
| "Object_entries (JArray xs) = indexed 0 xs"
| "Object_entries (JString s) = indexed 0 (map (\<lambda>c. JString [c]) s)"
| "Object_entries (JBuffer bs) = indexed 0 (map (\<lambda>b. JNumber (int b)) bs)"
| "Object_entries _ = []"

definition nullish :: "jsval \<Rightarrow> bool" where
  "nullish v = (v = JUndefined \<or> v = JNull)"

section \<open>src/utils/request.ts\<close>

definition buildUrl :: "config \<Rightarrow> string" where
  "buildUrl config =
     (let url = or_else (config.url config) '''' in
      case baseURL config of
        None \<Rightarrow> url
      | Some base \<Rightarrow>
          if base \<noteq> [] \<and> \<not> isAbsoluteURL url then combineURLs base url else url)"

definition transformHeaders :: "platform \<Rightarrow> config \<Rightarrow> (string \<times> string) list" where
  "transformHeaders P config =
     (case config.headers config of
        None \<Rightarrow> []
      | Some rawHeaders \<Rightarrow>
          foldl (\<lambda>headers (key, v).
                   if \<not> nullish v then obj_set key (js_String P v) headers else headers)
            [] (entries rawHeaders))"

text \<open>
  One iteration of the loops in \<^verbatim>\<open>transformParams\<close> and in the form branch of
  \<^verbatim>\<open>transformData\<close>: skip null and undefined, keep booleans and numbers, stringify the rest.
\<close>

definition put_scalar :: "platform \<Rightarrow> (string \<times> jsval) list \<Rightarrow> string \<times> jsval \<Rightarrow> (string \<times> jsval) list" where
  "put_scalar P acc kv =
     (case kv of (key, v) \<Rightarrow>
        if \<not> nullish v then
          (if typeof v = ''boolean'' \<or> typeof v = ''number'' then obj_set key v acc
           else obj_set key (JString (js_String P v)) acc)
        else acc)"

definition string_entries :: "(string \<times> string) list \<Rightarrow> (string \<times> jsval) list" where
  "string_entries ps = map (\<lambda>(k, v). (k, JString v)) ps"

definition transformParams :: "platform \<Rightarrow> config \<Rightarrow> (string \<times> jsval) list option" where
  "transformParams P config =
     (if \<not> truthy (config.params config) then None
      else case config.params config of
        JURLSearchParams ps \<Rightarrow> Some (fromEntries (string_entries ps))
      | other \<Rightarrow>
          (let params = foldl (put_scalar P) [] (Object_entries other) in
           if length params > 0 then Some params else None))"

definition getContentType :: "config \<Rightarrow> string option" where
  "getContentType config =
     (case config.headers config of
        None \<Rightarrow> None
      | Some h \<Rightarrow>
          (case get h of
             None \<Rightarrow> None
           | Some getter \<Rightarrow>
               (case getter ''Content-Type'' of
                  JString contentType \<Rightarrow> Some (toLowerCase contentType)
                | _ \<Rightarrow> None)))"

text \<open>\<^verbatim>\<open>contentType?.includes(sub)\<close>: undefined when the content type is, which is falsy.\<close>

fun opt_includes :: "string option \<Rightarrow> string \<Rightarrow> bool" where
  "opt_includes None sub = False"
| "opt_includes (Some s) sub = str_includes s sub"

definition no_body :: body_options where
  "no_body = \<lparr> body_options.data = None, form = None, multipart = None \<rparr>"

text \<open>The file descriptor \<^verbatim>\<open>{ name, mimeType, buffer }\<close> of a multipart field.\<close>

definition file_payload :: "string \<Rightarrow> string \<Rightarrow> blob \<Rightarrow> jsval" where
  "file_payload name mimeType buffer =
     JObject [(''name'', JString name), (''mimeType'', JString mimeType), (''buffer'', JBlob buffer)]"

text \<open>\<^verbatim>\<open>value instanceof File ? value.name : 'blob'\<close>\<close>

definition payload_name :: "blob \<Rightarrow> string" where
  "payload_name b = (case file_name b of Some n \<Rightarrow> n | None \<Rightarrow> ''blob'')"

text \<open>The callback of \<^verbatim>\<open>data.forEach\<close> in \<^verbatim>\<open>transformData\<close> (request.ts, lines 86 to 96).\<close>

definition multipart_field :: "(string \<times> jsval) list \<Rightarrow> string \<times> fd_value \<Rightarrow> (string \<times> jsval) list" where
  "multipart_field acc kv =
     (case kv of
        (key, FdBlob b) \<Rightarrow> obj_set key (file_payload (payload_name b) (blob_type b) b) acc
      | (key, FdString s) \<Rightarrow> obj_set key (JString s) acc)"

text \<open>
  \<^verbatim>\<open>isFormData(data)\<close> and \<^verbatim>\<open>isURLSearchParams(data)\<close> are the first two cases of the match on
  the body; \<open>by_multipart_type\<close> is the code from line 122 on, which both exits of the
  form-urlencoded block fall through to.
\<close>

definition transformData :: "platform \<Rightarrow> config \<Rightarrow> body_options" where
  "transformData P config =
     (let d = config.data config in
      if nullish d then no_body
      else
        let contentType = getContentType config;
            by_multipart_type =
              (if opt_includes contentType ''multipart/form-data''
                  \<and> typeof d = ''object'' \<and> \<not> isBuffer d
               then no_body\<lparr>multipart := Some d\<rparr>
               else no_body\<lparr>body_options.data := Some d\<rparr>)
        in case d of
          JFormData fd \<Rightarrow> no_body\<lparr>multipart := Some (JObject (foldl multipart_field [] fd))\<rparr>
        | JURLSearchParams ps \<Rightarrow> no_body\<lparr>form := Some (fromEntries (string_entries ps))\<rparr>
        | other \<Rightarrow>
            if opt_includes contentType ''application/x-www-form-urlencoded'' then
              (case other of
                 JString s \<Rightarrow> no_body\<lparr>form := Some (fromEntries (string_entries (parse_query P s)))\<rparr>
               | _ \<Rightarrow>
                   if typeof other = ''object''
                   then no_body\<lparr>form := Some (foldl (put_scalar P) [] (Object_entries other))\<rparr>
                   else by_multipart_type)
            else by_multipart_type)"

text \<open>\<^verbatim>\<open>adapterOptions?.field\<close>\<close>

fun opt_field :: "('a \<Rightarrow> 'b option) \<Rightarrow> 'a option \<Rightarrow> 'b option" where
  "opt_field f None = None"
| "opt_field f (Some r) = f r"

text \<open>\<^verbatim>\<open>a !== undefined ? a : b\<close> on optional fields.\<close>

fun first_defined :: "'a option \<Rightarrow> 'a option \<Rightarrow> 'a option" where
  "first_defined (Some a) b = Some a"
| "first_defined None b = b"

definition transformRequest :: "platform \<Rightarrow> config \<Rightarrow> adapter_options option \<Rightarrow> fetch_options" where
  "transformRequest P config adapterOptions =
     (let b = transformData P config in
      \<lparr> fetch_options.method = Some (or_else (map_option toUpperCase (config.method config)) ''GET''),
        headers = Some (transformHeaders P config),
        data = body_options.data b,
        form = body_options.form b,
        multipart = body_options.multipart b,
        params = transformParams P config,
        timeout = (case config.timeout config of
                     None \<Rightarrow> None
                   | Some t \<Rightarrow> if t \<noteq> 0 \<and> t > 0 then Some t else None),
        failOnStatusCode = opt_field adapter_options.failOnStatusCode adapterOptions,
        ignoreHTTPSErrors = opt_field adapter_options.ignoreHTTPSErrors adapterOptions,
        maxRedirects = first_defined (opt_field adapter_options.maxRedirects adapterOptions)
                         (config.maxRedirects config),
        maxRetries = opt_field adapter_options.maxRetries adapterOptions \<rparr>)"

section \<open>src/utils/response.ts\<close>

text \<open>
  \<^verbatim>\<open>new Blob([buffer], { type })\<close> keeps the type in lower case, or drops it when it has a
  character outside U+0020 to U+007E.
\<close>

definition new_Blob :: "nat list \<Rightarrow> string \<Rightarrow> blob" where
  "new_Blob buffer ty =
     Blob None
       (if list_all (\<lambda>c. 32 \<le> (of_char c :: nat) \<and> (of_char c :: nat) \<le> 126) ty
        then toLowerCase ty else '''')
       buffer"

text \<open>
  \<^verbatim>\<open>parseResponseBody\<close> returns the decoded data or the rejection, together with the body
  accessors it awaited, in order.  A Node \<^verbatim>\<open>Buffer\<close> and its \<^verbatim>\<open>.buffer\<close> are modelled by the
  same bytes.
\<close>

definition parseResponseBody :: "'e api_response \<Rightarrow> config \<Rightarrow> ('e + jsval) \<times> accessor list" where
  "parseResponseBody response config =
     (let contentType = or_else (map_of (response_headers response) ''content-type'') '''';
          responseType = or_else (config.responseType config) ''json''
      in
        if responseType = ''arraybuffer'' then (map_sum id JArrayBuffer (body response), [Body])
        else if responseType = ''blob'' then
          (map_sum id (\<lambda>buffer. JBlob (new_Blob buffer contentType)) (body response), [Body])
        else if responseType = ''text'' then (map_sum id JString (body_text response), [Text])
        else if responseType = ''stream'' then (map_sum id JBuffer (body response), [Body])
        else if str_includes contentType ''application/json'' then
          (case json response of
             Inr parsed \<Rightarrow> (Inr parsed, [Json])
           | Inl _ \<Rightarrow> (map_sum id JString (body_text response), [Json, Text]))
        else (map_sum id JString (body_text response), [Text]))"

definition transformResponse ::
  "'e api_response \<Rightarrow> config \<Rightarrow> ('e + 'e axios_response) \<times> accessor list" where
  "transformResponse response config =
     (case parseResponseBody response config of
        (Inl e, reads) \<Rightarrow> (Inl e, reads)
      | (Inr d, reads) \<Rightarrow>
          (Inr (AxiosResponse d (status response)
                  (if statusText response \<noteq> [] then statusText response
                   else getStatusText (status response))
                  (response_headers response) config response),
           reads))"

section \<open>src/axios-adapter.ts\<close>

text \<open>
  The external executor \<^verbatim>\<open>requestContext.fetch(url, options)\<close>: it resolves to a response
  or rejects.  An entry point returns its own outcome together with the executor calls it
  made, in order.
\<close>

type_synonym executor = "string \<Rightarrow> fetch_options \<Rightarrow> thrown + thrown api_response"

type_synonym executor_call = "string \<times> fetch_options"

text \<open>The arguments of the call at lines 45 to 57.\<close>

definition adapter_call :: "platform \<Rightarrow> adapter_options option \<Rightarrow> config \<Rightarrow> executor_call" where
  "adapter_call P options config =
     (let url = buildUrl config;
          requestOptions = transformRequest P config options
      in (url,
          requestOptions\<lparr>fetch_options.failOnStatusCode :=
            Some (case fetch_options.failOnStatusCode requestOptions of
                    None \<Rightarrow> False | Some b \<Rightarrow> b)\<rparr>))"

text \<open>The body of the \<^verbatim>\<open>try\<close> block (lines 45 to 72).\<close>

definition try_block :: "executor \<Rightarrow> config \<Rightarrow> executor_call \<Rightarrow> thrown + thrown axios_response" where
  "try_block requestContext_fetch config c =
     (case requestContext_fetch (fst c) (snd c) of
        Inl e \<Rightarrow> Inl e
      | Inr response \<Rightarrow>
          (case fst (transformResponse response config) of
             Inl e \<Rightarrow> Inl e
           | Inr axiosResponse \<Rightarrow>
               (case validateStatus config of
                  None \<Rightarrow> Inr axiosResponse
                | Some accepts \<Rightarrow>
                    if \<not> accepts (response_status axiosResponse) then
                      Inl (AxiosError
                             (''Request failed with status code ''
                                @ number_to_string (response_status axiosResponse))
                             ERR_BAD_REQUEST config (Some response) (Some axiosResponse) None)
                    else Inr axiosResponse)))"

text \<open>The \<^verbatim>\<open>catch\<close> block (lines 73 to 86): what is thrown for a caught error.\<close>

fun catch_block :: "config \<Rightarrow> thrown \<Rightarrow> thrown" where
  "catch_block config (AxiosError m c cf rq rs cs) = AxiosError m c cf rq rs cs"
| "catch_block config (Error m) =
     AxiosError (or_else m ''Request failed'') ERR_NETWORK config None None (Some (Error m))"

definition signal_aborted :: "abort_signal option \<Rightarrow> bool" where
  "signal_aborted s = (case s of None \<Rightarrow> False | Some sig \<Rightarrow> aborted sig)"

definition playwrightAdapter ::
  "platform \<Rightarrow> executor \<Rightarrow> adapter_options option \<Rightarrow> config
     \<Rightarrow> (thrown + thrown axios_response) \<times> executor_call list" where
  "playwrightAdapter P requestContext_fetch options config =
     (let c = adapter_call P options config in
      if signal_aborted (config.signal config) then
        (Inl (AxiosError ''Request aborted'' ERR_CANCELED config None None None), [])
      else
        (case try_block requestContext_fetch config c of
           Inl error \<Rightarrow> (Inl (catch_block config error), [c])
         | Inr axiosResponse \<Rightarrow> (Inr axiosResponse, [c])))"

section \<open>src/fetch-adapter.ts\<close>

text \<open>
  The arguments of a \<^verbatim>\<open>fetch\<close> call: the input is a string, a \<^verbatim>\<open>URL\<close> (by its \<^verbatim>\<open>toString()\<close>)
  or a \<^verbatim>\<open>Request\<close>; \<^verbatim>\<open>RequestInit\<close> is restricted to the fields a caller uses with this
  adapter.  A \<^verbatim>\<open>HeadersInit\<close> is a \<^verbatim>\<open>Headers\<close> object (by what \<^verbatim>\<open>forEach\<close> visits), an array of
  pairs or a plain record.
\<close>

record request =
  request_url :: string
  request_method :: string
  request_headers :: "(string \<times> string) list"
  request_signal :: abort_signal

datatype fetch_input = InputString string | InputURL string | InputRequest request

datatype headers_init =
    HeadersObject "(string \<times> string) list"
  | HeadersArray "(string \<times> string) list"
  | HeadersRecord "(string \<times> string) list"

record request_init =
  init_method :: "string option"
  init_headers :: "headers_init option"
  init_body :: jsval
  init_signal :: "abort_signal option"

record fetch_adapter_options =
  ignoreHTTPSErrors :: "bool option"
  maxRedirects :: "int option"
  maxRetries :: "int option"
  timeout :: "int option"

fun fetch_transformHeaders :: "headers_init option \<Rightarrow> (string \<times> string) list option" where
  "fetch_transformHeaders None = None"
| "fetch_transformHeaders (Some (HeadersObject visited)) = Some (fromEntries visited)"
| "fetch_transformHeaders (Some (HeadersArray pairs)) = Some (fromEntries pairs)"
| "fetch_transformHeaders (Some (HeadersRecord r)) = Some r"

text \<open>\<^verbatim>\<open>headers?.[key]?.toLowerCase()\<close> and \<^verbatim>\<open>a || b\<close> on optional strings.\<close>

definition header_lower :: "(string \<times> string) list option \<Rightarrow> string \<Rightarrow> string option" where
  "header_lower hdrs key =
     (case hdrs of None \<Rightarrow> None | Some h \<Rightarrow> map_option toLowerCase (map_of h key))"

fun opt_or :: "string option \<Rightarrow> string option \<Rightarrow> string option" where
  "opt_or None b = b"
| "opt_or (Some s) b = (if s = [] then b else Some s)"

text \<open>The callback of \<^verbatim>\<open>body.forEach\<close> in \<^verbatim>\<open>transformBody\<close> (fetch-adapter.ts, lines 57 to 67).\<close>

definition fetch_multipart_field :: "(string \<times> jsval) list \<Rightarrow> string \<times> fd_value \<Rightarrow> (string \<times> jsval) list" where
  "fetch_multipart_field acc kv =
     (case kv of
        (key, FdBlob b) \<Rightarrow>
          obj_set key
            (file_payload (payload_name b) (or_else (Some (blob_type b)) ''application/octet-stream'') b)
            acc
      | (key, FdString s) \<Rightarrow> obj_set key (JString s) acc)"

definition transformBody :: "platform \<Rightarrow> jsval \<Rightarrow> (string \<times> string) list option \<Rightarrow> body_options" where
  "transformBody P b hdrs =
     (if nullish b then no_body
      else case b of
        JFormData fd \<Rightarrow>
          no_body\<lparr>multipart := Some (JObject (foldl fetch_multipart_field [] fd))\<rparr>
      | JURLSearchParams ps \<Rightarrow> no_body\<lparr>form := Some (fromEntries (string_entries ps))\<rparr>
      | other \<Rightarrow>
          (let contentType = opt_or (header_lower hdrs ''content-type'')
                               (header_lower hdrs ''Content-Type'')
           in case other of
             JString s \<Rightarrow>
               if opt_includes contentType ''application/x-www-form-urlencoded''
               then no_body\<lparr>form := Some (fromEntries (string_entries (parse_query P s)))\<rparr>
               else no_body\<lparr>body_options.data := Some other\<rparr>
           | _ \<Rightarrow> no_body\<lparr>body_options.data := Some other\<rparr>))"

definition toResponse :: "platform \<Rightarrow> thrown api_response \<Rightarrow> thrown + web_response" where
  "toResponse P apiResponse =
     (case body apiResponse of
        Inl e \<Rightarrow> Inl e
      | Inr b \<Rightarrow>
          new_Response P b (status apiResponse)
            (if statusText apiResponse \<noteq> [] then statusText apiResponse
             else getStatusText (status apiResponse))
            (response_headers apiResponse))"

text \<open>The arguments of the call at lines 137 to 145.\<close>

definition fetch_call ::
  "platform \<Rightarrow> fetch_adapter_options option \<Rightarrow> fetch_input \<Rightarrow> request_init option \<Rightarrow> executor_call" where
  "fetch_call P options input init =
     (let url = (case input of
                   InputRequest r \<Rightarrow> request_url r
                 | InputString s \<Rightarrow> s
                 | InputURL href \<Rightarrow> href);
          m = or_else (opt_field init_method init)
                (case input of InputRequest r \<Rightarrow> request_method r | _ \<Rightarrow> ''GET'');
          headers = (case opt_field init_headers init of
                       Some h \<Rightarrow> fetch_transformHeaders (Some h)
                     | None \<Rightarrow>
                         (case input of
                            InputRequest r \<Rightarrow>
                              fetch_transformHeaders (Some (HeadersRecord (fromEntries (request_headers r))))
                          | _ \<Rightarrow> fetch_transformHeaders None));
          bodyOptions = transformBody P (case init of None \<Rightarrow> JUndefined | Some i \<Rightarrow> init_body i) headers
      in (url,
          \<lparr> fetch_options.method = Some m,
            headers = headers,
            data = body_options.data bodyOptions,
            form = body_options.form bodyOptions,
            multipart = body_options.multipart bodyOptions,
            params = None,
            timeout = opt_field fetch_adapter_options.timeout options,
            failOnStatusCode = None,
            ignoreHTTPSErrors = opt_field fetch_adapter_options.ignoreHTTPSErrors options,
            maxRedirects = opt_field fetch_adapter_options.maxRedirects options,
            maxRetries = opt_field fetch_adapter_options.maxRetries options \<rparr>))"

definition playwrightFetch ::
  "platform \<Rightarrow> executor \<Rightarrow> fetch_adapter_options option \<Rightarrow> fetch_input \<Rightarrow> request_init option
     \<Rightarrow> (thrown + web_response) \<times> executor_call list" where
  "playwrightFetch P requestContext_fetch options input init =
     (let c = fetch_call P options input init in
      (case requestContext_fetch (fst c) (snd c) of
         Inl e \<Rightarrow> (Inl e, [c])
       | Inr apiResponse \<Rightarrow> (toResponse P apiResponse, [c])))"

text \<open>Derived notions used to state the properties.\<close>

definition count_populated :: "'a option \<Rightarrow> 'b option \<Rightarrow> 'c option \<Rightarrow> nat" where
  "count_populated d f m =
     (if d = None then 0 else 1) + (if f = None then 0 else 1) + (if m = None then 0 else 1)"

definition populated :: "body_options \<Rightarrow> nat" where
  "populated b = count_populated (body_options.data b) (body_options.form b) (body_options.multipart b)"

definition populated_bag :: "fetch_options \<Rightarrow> nat" where
  "populated_bag b = count_populated (fetch_options.data b) (fetch_options.form b) (fetch_options.multipart b)"

text \<open>
  The multipart value the specification describes for one entry of a form collection: a
  string for a non-file field, and for a file-like field the descriptor whose name
  defaults to \<^verbatim>\<open>blob\<close> and whose mimeType defaults to \<^verbatim>\<open>application/octet-stream\<close>.
\<close>

fun specified_payload :: "fd_value \<Rightarrow> jsval" where
  "specified_payload (FdString s) = JString s"
| "specified_payload (FdBlob b) =
     JObject [(''name'', JString (case file_name b of Some n \<Rightarrow> n | None \<Rightarrow> ''blob'')),
              (''mimeType'',
               JString (if blob_type b = [] then ''application/octet-stream'' else blob_type b)),
              (''buffer'', JBlob b)]"

text \<open>The response's content type contains \<^verbatim>\<open>application/json\<close> (response.ts, line 269).\<close>

definition declares_json :: "'e api_response \<Rightarrow> bool" where
  "declares_json response =
     str_includes (or_else (map_of (response_headers response) ''content-type'') '''') ''application/json''"

text \<open>The requested representation reaches the \<^verbatim>\<open>case 'json': default:\<close> branch of the switch.\<close>

definition json_branch :: "config \<Rightarrow> bool" where
  "json_branch config =
     (or_else (config.responseType config) ''json''
        \<notin> set [''arraybuffer'', ''blob'', ''text'', ''stream''])"

section \<open>Example inputs\<close>

definition cfg0 :: config where
  "cfg0 = \<lparr> url = Some ''/users'', baseURL = Some ''https://api.example.com'', method = Some ''get'',
            headers = None, params = JUndefined, data = JUndefined, timeout = None,
            maxRedirects = None, responseType = None, signal = None, validateStatus = None \<rparr>"

definition platform0 :: platform where
  "platform0 =
     \<lparr> js_String = (\<lambda>v. case v of JString s \<Rightarrow> s | _ \<Rightarrow> ''[object Object]''),
       parse_query = (\<lambda>s. []),
       new_Response = (\<lambda>b st stt h.
         Inr \<lparr> web_body = b, web_status = st, web_statusText = stt, web_headers = h \<rparr>) \<rparr>"

text \<open>A 404 response that declares JSON, whose body \<^verbatim>\<open>nope\<close> is not JSON: \<^verbatim>\<open>json()\<close> rejects.\<close>

definition not_found :: "thrown api_response" where
  "not_found =
     APIResponse 404 ''Not Found'' [(''content-type'', ''application/json'')]
       (Inr [110, 111, 112, 101]) (Inr ''nope'')
       (Inl (Error (Some ''Unexpected token o in JSON at position 1'')))"

text \<open>The same response served as plain text.\<close>

definition not_found_plain :: "thrown api_response" where
  "not_found_plain =
     APIResponse 404 ''Not Found'' [(''content-type'', ''text/plain'')]
       (Inr [110, 111, 112, 101]) (Inr ''nope'')
       (Inl (Error (Some ''Unexpected token o in JSON at position 1'')))"

definition exec_not_found :: executor where
  "exec_not_found u opts = Inr not_found"

definition exec_refused :: executor where
  "exec_refused u opts = Inl (Error (Some ''connect ECONNREFUSED 127.0.0.1:80''))"

definition exec_silent :: executor where
  "exec_silent u opts = Inl (Error (Some ''''))"

definition exec_canceled :: executor where
  "exec_canceled u opts = Inl (AxiosError ''canceled'' ERR_CANCELED cfg0 None None None)"

definition below_300 :: "int \<Rightarrow> bool" where
  "below_300 s = (s < 300)"

definition aborted_signal :: abort_signal where
  "aborted_signal = \<lparr> aborted = True \<rparr>"

definition init_aborted :: request_init where
  "init_aborted = \<lparr> init_method = None, init_headers = None, init_body = JUndefined,
                     init_signal = Some aborted_signal \<rparr>"

definition init_patch :: request_init where
  "init_patch = \<lparr> init_method = Some ''patch'', init_headers = None, init_body = JUndefined,
                   init_signal = None \<rparr>"

definition request_delete :: request where
  "request_delete = \<lparr> request_url = ''https://api.example.com/users/1'', request_method = ''DELETE'',
                       request_headers = [], request_signal = \<lparr> aborted = False \<rparr> \<rparr>"

definition untyped_blob :: blob where
  "untyped_blob = Blob None '''' [104, 105]"

definition upload :: jsval where
  "upload = JFormData [(''note'', FdString ''hello''), (''file'', FdBlob untyped_blob)]"

section \<open>URL resolution\<close>

lemma isAbsoluteURL_nonempty: "isAbsoluteURL u \<Longrightarrow> u \<noteq> []"
  by (auto simp: isAbsoluteURL_def)

text \<open>
  The matcher accepts exactly the language of the regular expression: either the string
  starts with two slashes, or it is a letter, a run of scheme characters, and \<^verbatim>\<open>://\<close>,
  followed by anything.
\<close>

lemma isAbsoluteURL_iff:
  "isAbsoluteURL u \<longleftrightarrow>
     (\<exists>rest. u = ''//'' @ rest) \<or>
     (\<exists>c run rest. u = c # run @ ''://'' @ rest \<and> is_letter c \<and> list_all is_scheme_char run)"
proof
  assume "isAbsoluteURL u"
  then consider (slashes) "take 2 u = ''//''"
    | (scheme) c cs where "u = c # cs" "is_letter c" "take 3 (dropWhile is_scheme_char cs) = ''://''"
    by (auto simp: isAbsoluteURL_def split: list.splits)
  then show "(\<exists>rest. u = ''//'' @ rest) \<or>
     (\<exists>c run rest. u = c # run @ ''://'' @ rest \<and> is_letter c \<and> list_all is_scheme_char run)"
  proof cases
    case slashes
    then have "u = ''//'' @ drop 2 u"
      by (metis append_take_drop_id)
    then show ?thesis by blast
  next
    case scheme
    let ?run = "takeWhile is_scheme_char cs"
    let ?tl = "dropWhile is_scheme_char cs"
    have "?tl = ''://'' @ drop 3 ?tl"
      using scheme(3) by (metis append_take_drop_id)
    then have "u = c # ?run @ ''://'' @ drop 3 ?tl"
      using scheme(1) by (metis takeWhile_dropWhile_id)
    moreover have "list_all is_scheme_char ?run"
      by (simp add: list_all_iff) (meson set_takeWhileD)
    ultimately show ?thesis using scheme(2) by blast
  qed
next
  assume "(\<exists>rest. u = ''//'' @ rest) \<or>
     (\<exists>c run rest. u = c # run @ ''://'' @ rest \<and> is_letter c \<and> list_all is_scheme_char run)"
  then show "isAbsoluteURL u"
  proof
    assume "\<exists>rest. u = ''//'' @ rest"
    then show ?thesis by (auto simp: isAbsoluteURL_def)
  next
    assume "\<exists>c run rest. u = c # run @ ''://'' @ rest \<and> is_letter c \<and> list_all is_scheme_char run"
    then obtain c run rest where u: "u = c # run @ ''://'' @ rest"
      and c: "is_letter c" and run: "list_all is_scheme_char run" by blast
    have colon: "\<not> is_scheme_char CHR '':''"
      by (simp add: is_scheme_char_def is_letter_def)
    have "dropWhile is_scheme_char (run @ ''://'' @ rest) = ''://'' @ rest"
      using run colon by (simp add: dropWhile_append3 list_all_iff)
    then show ?thesis using u c by (simp add: isAbsoluteURL_def)
  qed
qed

text \<open>The matcher and the join on the examples of the specification.\<close>

lemma isAbsoluteURL_examples:
  "isAbsoluteURL ''https://a.com/x''"
  "isAbsoluteURL ''HTTP+x.1://A''"
  "isAbsoluteURL ''//host/path''"
  "isAbsoluteURL ''///path''"
  "\<not> isAbsoluteURL ''/users''"
  "\<not> isAbsoluteURL ''users//x''"
  "\<not> isAbsoluteURL ''1a://x''"
  "\<not> isAbsoluteURL ''a_b://x''"
  by (simp_all add: isAbsoluteURL_def is_letter_def is_scheme_char_def)

lemma buildUrl_examples:
  "combineURLs ''https://a.com///'' ''users'' = ''https://a.com/users''"
  "combineURLs ''https://a.com'' '''' = ''https://a.com''"
  "buildUrl cfg0 = ''https://api.example.com/users''"
  "buildUrl (cfg0\<lparr>url := None, baseURL := None\<rparr>) = ''''"
  "buildUrl (cfg0\<lparr>url := Some ''///path''\<rparr>) = ''///path''"
  by (simp_all add: combineURLs_def buildUrl_def cfg0_def strip_trailing_slashes_def
      strip_leading_slashes_def isAbsoluteURL_def is_letter_def is_scheme_char_def)

text \<open>
  C2.  A URL that matches the absolute-URL pattern is returned by URL resolution
  unchanged, character for character, whatever the base URL of the request is (present,
  absent or empty).
\<close>

theorem buildUrl_absolute_unchanged:
  "config.url config = Some u \<Longrightarrow> isAbsoluteURL u \<Longrightarrow> buildUrl config = u"
  by (auto simp: buildUrl_def Let_def split: option.splits dest: isAbsoluteURL_nonempty)

theorem buildUrl_absolute_unchanged_witness:
  "config.url (cfg0\<lparr>url := Some ''//cdn.example.com/lib.js''\<rparr>)
     = Some ''//cdn.example.com/lib.js''
   \<and> isAbsoluteURL ''//cdn.example.com/lib.js''
   \<and> buildUrl (cfg0\<lparr>url := Some ''//cdn.example.com/lib.js''\<rparr>)
     = ''//cdn.example.com/lib.js''"
  using buildUrl_absolute_unchanged
    [of "cfg0\<lparr>url := Some ''//cdn.example.com/lib.js''\<rparr>"
        "''//cdn.example.com/lib.js''"]
  by (simp add: cfg0_def isAbsoluteURL_def)

section \<open>Cancellation before dispatch\<close>

text \<open>
  The axios-style entry point does the preflight: for every request descriptor whose
  cancellation token is already cancelled at call time, the call ends with the Canceled
  error (code \<open>ERR_CANCELED\<close>) carrying the message \<^verbatim>\<open>Request aborted\<close> and the request
  descriptor, and the executor is not invoked: the list of executor calls is empty.
\<close>

lemma playwrightAdapter_aborted:
  "config.signal config = Some s \<Longrightarrow> aborted s \<Longrightarrow>
     playwrightAdapter P requestContext_fetch options config
       = (Inl (AxiosError ''Request aborted'' ERR_CANCELED config None None None), [])"
  by (simp add: playwrightAdapter_def signal_aborted_def Let_def)

lemma playwrightAdapter_aborted_witness:
  "config.signal (cfg0\<lparr>signal := Some aborted_signal\<rparr>) = Some aborted_signal
   \<and> aborted aborted_signal
   \<and> playwrightAdapter platform0 exec_not_found None (cfg0\<lparr>signal := Some aborted_signal\<rparr>)
       = (Inl (AxiosError ''Request aborted'' ERR_CANCELED (cfg0\<lparr>signal := Some aborted_signal\<rparr>)
                 None None None), [])"
  using playwrightAdapter_aborted
    [of "cfg0\<lparr>signal := Some aborted_signal\<rparr>" aborted_signal platform0 exec_not_found None]
  by (simp add: aborted_signal_def)

text \<open>
  C1.  The fetch-style entry point does not: it never reads the signal of its init options
  or of a \<^verbatim>\<open>Request\<close>.  Called with an init whose signal is already aborted, it raises no
  Canceled error; it invokes the executor once and resolves with the executor's response.
\<close>

theorem playwrightFetch_ignores_aborted_signal:
  "init_signal init_aborted = Some aborted_signal
   \<and> aborted aborted_signal
   \<and> playwrightFetch platform0 exec_not_found None
        (InputString ''https://api.example.com/users'') (Some init_aborted)
       = (Inr \<lparr> web_body = [110, 111, 112, 101], web_status = 404, web_statusText = ''Not Found'',
                web_headers = [(''content-type'', ''application/json'')] \<rparr>,
          [(''https://api.example.com/users'',
            \<lparr> fetch_options.method = Some ''GET'', headers = None, data = None, form = None,
              multipart = None, params = None, timeout = None, failOnStatusCode = None,
              ignoreHTTPSErrors = None, maxRedirects = None, maxRetries = None \<rparr>)])"
  by (simp add: playwrightFetch_def fetch_call_def init_aborted_def aborted_signal_def
      exec_not_found_def not_found_def toResponse_def platform0_def transformBody_def
      nullish_def no_body_def Let_def)

lemma playwrightFetch_calls_once:
  "snd (playwrightFetch P requestContext_fetch options input init) = [fetch_call P options input init]"
  by (simp add: playwrightFetch_def Let_def split: sum.splits)

section \<open>The body codec populates at most one field\<close>

lemma count_populated_simps:
  "count_populated None None None = 0"
  "count_populated (Some a) None None = 1"
  "count_populated None (Some b) None = 1"
  "count_populated None None (Some c) = 1"
  by (simp_all add: count_populated_def)

lemma transformData_populated: "populated (transformData P config) \<le> 1"
  by (simp add: transformData_def populated_def no_body_def Let_def count_populated_simps
      split: jsval.splits)

lemma transformBody_populated: "populated (transformBody P b hdrs) \<le> 1"
  by (simp add: transformBody_def populated_def no_body_def Let_def count_populated_simps
      split: jsval.splits)

text \<open>
  C3.  For every body value and every header mapping, the output of the body codec (the
  axios-style \<open>transformData\<close> and the fetch-style \<open>transformBody\<close>) populates at most one
  of the fields data (raw), form and multipart, and so does the options bag either entry
  point hands to the executor.
\<close>

theorem body_codec_at_most_one:
  "populated (transformData P config) \<le> 1
   \<and> populated (transformBody P b hdrs) \<le> 1
   \<and> populated_bag (snd (adapter_call P options config)) \<le> 1
   \<and> populated_bag (snd (fetch_call P fetch_opts input init)) \<le> 1"
  using transformData_populated [of P config]
    transformBody_populated [of P "case init of None \<Rightarrow> JUndefined | Some i \<Rightarrow> init_body i"]
    transformBody_populated [of P b hdrs]
  by (simp add: populated_bag_def populated_def adapter_call_def fetch_call_def
      transformRequest_def Let_def)

theorem body_codec_at_most_one_witness:
  "populated (transformData platform0 (cfg0\<lparr>config.data := upload\<rparr>)) \<le> 1
   \<and> populated (transformBody platform0 (JString ''a=1'') (Some [(''content-type'', ''text/plain'')])) \<le> 1
   \<and> populated_bag (snd (adapter_call platform0 None (cfg0\<lparr>config.data := upload\<rparr>))) \<le> 1
   \<and> populated_bag (snd (fetch_call platform0 None (InputRequest request_delete) (Some init_patch))) \<le> 1
   \<and> body_options.multipart (transformData platform0 (cfg0\<lparr>config.data := upload\<rparr>)) \<noteq> None
   \<and> body_options.data (transformBody platform0 (JString ''a=1'') (Some [(''content-type'', ''text/plain'')]))
       = Some (JString ''a=1'')"
  using body_codec_at_most_one
    [of platform0 "cfg0\<lparr>config.data := upload\<rparr>" "JString ''a=1''"
        "Some [(''content-type'', ''text/plain'')]" None None "InputRequest request_delete"
        "Some init_patch"]
  by (simp add: transformData_def transformBody_def cfg0_def upload_def nullish_def no_body_def
      header_lower_def toLowerCase_def lower_of_def Let_def)

section \<open>Decoding the response body\<close>

text \<open>
  C4.  When the response is decoded with the \<^verbatim>\<open>json\<close> representation (requested, or by
  default) and reading the text succeeds with \<open>t\<close>: if the content type declares JSON and
  the \<^verbatim>\<open>json()\<close> accessor rejects because the body is not valid JSON, the decoded data is
  the raw text \<open>t\<close> and no error is raised; if the content type does not declare JSON, no
  parse is attempted (only \<^verbatim>\<open>text()\<close> is awaited) and the raw text is returned.
\<close>

theorem parseResponseBody_json:
  "or_else (config.responseType config) ''json'' = ''json'' \<Longrightarrow> body_text response = Inr t \<Longrightarrow>
     (declares_json response \<and> json response = Inl e
        \<longrightarrow> parseResponseBody response config = (Inr (JString t), [Json, Text]))
     \<and> (\<not> declares_json response
        \<longrightarrow> parseResponseBody response config = (Inr (JString t), [Text]))"
  by (simp add: parseResponseBody_def declares_json_def Let_def)

theorem parseResponseBody_json_witness:
  "or_else (config.responseType cfg0) ''json'' = ''json''
   \<and> body_text not_found = Inr ''nope'' \<and> body_text not_found_plain = Inr ''nope''
   \<and> declares_json not_found
   \<and> json not_found = Inl (Error (Some ''Unexpected token o in JSON at position 1''))
   \<and> parseResponseBody not_found cfg0 = (Inr (JString ''nope''), [Json, Text])
   \<and> \<not> declares_json not_found_plain
   \<and> parseResponseBody not_found_plain cfg0 = (Inr (JString ''nope''), [Text])"
  using parseResponseBody_json
      [of cfg0 not_found "''nope''" "Error (Some ''Unexpected token o in JSON at position 1'')"]
    parseResponseBody_json
      [of cfg0 not_found_plain "''nope''" "Error (Some ''Unexpected token o in JSON at position 1'')"]
  by (simp add: cfg0_def not_found_def not_found_plain_def declares_json_def)

section \<open>How often the body is read\<close>

lemma parseResponseBody_reads:
  "snd (parseResponseBody response config)
     = (if json_branch config then
          (if declares_json response then
             (case json response of Inl e \<Rightarrow> [Json, Text] | Inr v \<Rightarrow> [Json])
           else [Text])
        else if or_else (config.responseType config) ''json'' = ''text'' then [Text]
        else [Body])"
  by (simp add: parseResponseBody_def json_branch_def declares_json_def Let_def split: sum.splits)

lemma transformResponse_reads:
  "snd (transformResponse response config) = snd (parseResponseBody response config)"
  by (cases "parseResponseBody response config"; cases "fst (parseResponseBody response config)")
     (auto simp: transformResponse_def)

text \<open>
  For a response that declares JSON and whose \<^verbatim>\<open>json()\<close> rejects, one response translation
  awaits two body accessors, \<^verbatim>\<open>json()\<close> and then \<^verbatim>\<open>text()\<close>.
\<close>

theorem body_read_twice_on_json_fallback:
  "snd (parseResponseBody not_found cfg0) = [Json, Text]
   \<and> snd (transformResponse not_found cfg0) = [Json, Text]
   \<and> length (snd (transformResponse not_found cfg0)) = 2"
  by (simp add: parseResponseBody_def transformResponse_def not_found_def cfg0_def Let_def)

text \<open>
  C9 (as amended).  For every response translation and every requested representation, no
  body accessor is awaited twice, and exactly one accessor is awaited in total, except on
  the JSON fallback: when the representation is \<^verbatim>\<open>json\<close> (or the default), the content type
  declares JSON and \<^verbatim>\<open>json()\<close> rejects, then \<^verbatim>\<open>json()\<close> and \<^verbatim>\<open>text()\<close> are awaited, once each
  and in this order.
\<close>

theorem body_reads:
  "snd (transformResponse response config) = snd (parseResponseBody response config)
   \<and> distinct (snd (parseResponseBody response config))
   \<and> (json_branch config \<and> declares_json response \<and> isl (json response)
        \<longrightarrow> snd (parseResponseBody response config) = [Json, Text])
   \<and> (\<not> (json_branch config \<and> declares_json response \<and> isl (json response))
        \<longrightarrow> length (snd (parseResponseBody response config)) = 1)"
  using transformResponse_reads [of response config]
  by (auto simp: parseResponseBody_reads split: sum.splits)

theorem body_reads_witness:
  "json_branch cfg0 \<and> declares_json not_found \<and> isl (json not_found)
   \<and> snd (parseResponseBody not_found cfg0) = [Json, Text]
   \<and> \<not> (json_branch cfg0 \<and> declares_json not_found_plain \<and> isl (json not_found_plain))
   \<and> snd (transformResponse not_found_plain cfg0) = [Text]
   \<and> length (snd (parseResponseBody not_found_plain cfg0)) = 1"
  using body_reads [of not_found cfg0] body_reads [of not_found_plain cfg0]
  by (simp add: json_branch_def declares_json_def cfg0_def not_found_def not_found_plain_def
      parseResponseBody_def transformResponse_def Let_def)

section \<open>Status validation\<close>

lemma transformResponse_status:
  "fst (transformResponse response config) = Inr axiosResponse \<Longrightarrow>
   response_status axiosResponse = status response"
  by (cases "parseResponseBody response config"; cases "fst (parseResponseBody response config)")
     (auto simp: transformResponse_def)

lemma number_to_string_404: "number_to_string 404 = ''404''"
  by (simp add: number_to_string_def string_of_nat.simps)

text \<open>
  C5.  Whenever the executor returns a response and it is decoded to a response
  descriptor: the descriptor carries the executor's status; with no status-validation
  predicate the entry point returns the descriptor as a success, whatever the status;
  with a predicate that rejects the status it raises the StatusValidation error (code
  \<open>ERR_BAD_REQUEST\<close>) with the message \<^verbatim>\<open>Request failed with status code\<close> followed by the
  status, carrying the request descriptor, the executor response and the decoded response.
\<close>

theorem status_validation:
  "\<not> signal_aborted (config.signal config) \<Longrightarrow>
   requestContext_fetch (fst (adapter_call P options config)) (snd (adapter_call P options config))
     = Inr response \<Longrightarrow>
   fst (transformResponse response config) = Inr axiosResponse \<Longrightarrow>
     response_status axiosResponse = status response
     \<and> (validateStatus config = None
          \<longrightarrow> fst (playwrightAdapter P requestContext_fetch options config) = Inr axiosResponse)
     \<and> (validateStatus config = Some accepts \<and> \<not> accepts (status response)
          \<longrightarrow> fst (playwrightAdapter P requestContext_fetch options config)
                = Inl (AxiosError
                         (''Request failed with status code '' @ number_to_string (status response))
                         ERR_BAD_REQUEST config (Some response) (Some axiosResponse) None))"
  using transformResponse_status [of response config axiosResponse]
  by (simp add: playwrightAdapter_def try_block_def Let_def)

theorem status_validation_witness:
  "\<not> signal_aborted (config.signal cfg0)
   \<and> exec_not_found (fst (adapter_call platform0 None cfg0)) (snd (adapter_call platform0 None cfg0))
       = Inr not_found
   \<and> fst (transformResponse not_found cfg0)
       = Inr (AxiosResponse (JString ''nope'') 404 ''Not Found''
                [(''content-type'', ''application/json'')] cfg0 not_found)
   \<and> validateStatus cfg0 = None
   \<and> fst (playwrightAdapter platform0 exec_not_found None cfg0)
       = Inr (AxiosResponse (JString ''nope'') 404 ''Not Found''
                [(''content-type'', ''application/json'')] cfg0 not_found)
   \<and> validateStatus (cfg0\<lparr>validateStatus := Some below_300\<rparr>) = Some below_300
   \<and> \<not> below_300 (status not_found)
   \<and> fst (playwrightAdapter platform0 exec_not_found None (cfg0\<lparr>validateStatus := Some below_300\<rparr>))
       = Inl (AxiosError ''Request failed with status code 404'' ERR_BAD_REQUEST
                (cfg0\<lparr>validateStatus := Some below_300\<rparr>) (Some not_found)
                (Some (AxiosResponse (JString ''nope'') 404 ''Not Found''
                         [(''content-type'', ''application/json'')]
                         (cfg0\<lparr>validateStatus := Some below_300\<rparr>) not_found))
                None)"
proof -
  let ?cfg = "cfg0\<lparr>validateStatus := Some below_300\<rparr>"
  have decode: "fst (transformResponse not_found c)
      = Inr (AxiosResponse (JString ''nope'') 404 ''Not Found''
                [(''content-type'', ''application/json'')] c not_found)"
    if "config.responseType c = None" for c
    using that by (simp add: transformResponse_def parseResponseBody_def not_found_def Let_def)
  have live: "\<not> signal_aborted (config.signal cfg0)" "\<not> signal_aborted (config.signal ?cfg)"
    by (simp_all add: signal_aborted_def cfg0_def)
  have st: "status not_found = 404" by (simp add: not_found_def)
  have d0: "fst (transformResponse not_found cfg0)
      = Inr (AxiosResponse (JString ''nope'') 404 ''Not Found''
                [(''content-type'', ''application/json'')] cfg0 not_found)"
    by (rule decode) (simp add: cfg0_def)
  have d1: "fst (transformResponse not_found ?cfg)
      = Inr (AxiosResponse (JString ''nope'') 404 ''Not Found''
                [(''content-type'', ''application/json'')] ?cfg not_found)"
    by (rule decode) (simp add: cfg0_def)
  have ex: "exec_not_found u opts = Inr not_found" for u opts
    by (simp add: exec_not_found_def)
  have v0: "validateStatus cfg0 = None" by (simp add: cfg0_def)
  from status_validation [where P = platform0 and options = None and accepts = below_300
           and requestContext_fetch = exec_not_found, OF live(1) ex d0]
       status_validation [where P = platform0 and options = None and accepts = below_300
           and requestContext_fetch = exec_not_found, OF live(2) ex d1]
  show ?thesis
    using live(1) d0 v0 by (simp add: st below_300_def number_to_string_404 ex)
qed

section \<open>Mapping the errors of a dispatch\<close>

text \<open>A rejection of the executor, or of a body accessor while decoding, leaves the try block as it is.\<close>

lemma try_block_executor_rejects:
  "requestContext_fetch (fst c) (snd c) = Inl e \<Longrightarrow> try_block requestContext_fetch config c = Inl e"
  by (simp add: try_block_def)

lemma try_block_decode_rejects:
  "requestContext_fetch (fst c) (snd c) = Inr response \<Longrightarrow>
   fst (parseResponseBody response config) = Inl e \<Longrightarrow>
   try_block requestContext_fetch config c = Inl e"
  by (cases "parseResponseBody response config") (simp add: try_block_def transformResponse_def)

text \<open>
  C6.  For every error \<open>e\<close> raised during dispatch (inside the try block): if \<open>e\<close> is already
  one of the adapter's own errors it is raised again unchanged; any other error is wrapped
  as a Network error (code \<open>ERR_NETWORK\<close>) whose message is the message of \<open>e\<close>, or the literal
  \<^verbatim>\<open>Request failed\<close> when that message is empty or absent, with \<open>e\<close> kept as the cause and the
  request descriptor attached.
\<close>

theorem error_mapping:
  "\<not> signal_aborted (config.signal config) \<Longrightarrow>
   try_block requestContext_fetch config (adapter_call P options config) = Inl e \<Longrightarrow>
     (e = AxiosError m c cf rq rs cs
        \<longrightarrow> fst (playwrightAdapter P requestContext_fetch options config) = Inl e)
     \<and> (e = Error (Some msg) \<and> msg \<noteq> []
        \<longrightarrow> fst (playwrightAdapter P requestContext_fetch options config)
              = Inl (AxiosError msg ERR_NETWORK config None None (Some e)))
     \<and> (e = Error None \<or> e = Error (Some [])
        \<longrightarrow> fst (playwrightAdapter P requestContext_fetch options config)
              = Inl (AxiosError ''Request failed'' ERR_NETWORK config None None (Some e)))"
  by (auto simp: playwrightAdapter_def Let_def)

theorem error_mapping_witness:
  "\<not> signal_aborted (config.signal cfg0)
   \<and> try_block exec_canceled cfg0 (adapter_call platform0 None cfg0)
       = Inl (AxiosError ''canceled'' ERR_CANCELED cfg0 None None None)
   \<and> fst (playwrightAdapter platform0 exec_canceled None cfg0)
       = Inl (AxiosError ''canceled'' ERR_CANCELED cfg0 None None None)
   \<and> try_block exec_refused cfg0 (adapter_call platform0 None cfg0)
       = Inl (Error (Some ''connect ECONNREFUSED 127.0.0.1:80''))
   \<and> fst (playwrightAdapter platform0 exec_refused None cfg0)
       = Inl (AxiosError ''connect ECONNREFUSED 127.0.0.1:80'' ERR_NETWORK cfg0 None None
                (Some (Error (Some ''connect ECONNREFUSED 127.0.0.1:80''))))
   \<and> try_block exec_silent cfg0 (adapter_call platform0 None cfg0) = Inl (Error (Some ''''))
   \<and> fst (playwrightAdapter platform0 exec_silent None cfg0)
       = Inl (AxiosError ''Request failed'' ERR_NETWORK cfg0 None None (Some (Error (Some ''''))))"
proof -
  have live: "\<not> signal_aborted (config.signal cfg0)"
    by (simp add: signal_aborted_def cfg0_def)
  have t1: "try_block exec_canceled cfg0 (adapter_call platform0 None cfg0)
       = Inl (AxiosError ''canceled'' ERR_CANCELED cfg0 None None None)"
    by (simp add: try_block_def exec_canceled_def)
  have t2: "try_block exec_refused cfg0 (adapter_call platform0 None cfg0)
       = Inl (Error (Some ''connect ECONNREFUSED 127.0.0.1:80''))"
    by (simp add: try_block_def exec_refused_def)
  have t3: "try_block exec_silent cfg0 (adapter_call platform0 None cfg0) = Inl (Error (Some ''''))"
    by (simp add: try_block_def exec_silent_def)
  from error_mapping [where m = "''canceled''" and c = ERR_CANCELED and cf = cfg0 and rq = None
                        and rs = None and cs = None and msg = "''x''", OF live t1]
       error_mapping [where m = "''''" and c = ERR_NETWORK and cf = cfg0 and rq = None
                        and rs = None and cs = None
                        and msg = "''connect ECONNREFUSED 127.0.0.1:80''", OF live t2]
       error_mapping [where m = "''''" and c = ERR_NETWORK and cf = cfg0 and rq = None
                        and rs = None and cs = None and msg = "''x''", OF live t3]
  show ?thesis using live t1 t2 t3 by simp
qed

section \<open>Multipart fields\<close>

lemma map_of_obj_set: "map_of (obj_set k v ps) = (map_of ps)(k \<mapsto> v)"
  by (induction ps) (auto simp: fun_eq_iff)

lemma fetch_multipart_field_eq:
  "fetch_multipart_field acc kv = obj_set (fst kv) (specified_payload (snd kv)) acc"
  by (cases kv; cases "snd kv")
     (auto simp: fetch_multipart_field_def file_payload_def payload_name_def)

lemma map_of_foldl_fetch_multipart:
  "map_of (foldl fetch_multipart_field acc fd)
     = map_of acc ++ map_of (rev (map (\<lambda>kv. (fst kv, specified_payload (snd kv))) fd))"
  by (induction fd arbitrary: acc) (simp_all add: fetch_multipart_field_eq map_of_obj_set)

text \<open>
  The fetch-style codec does what C7 says: the multipart mapping sends each field name to
  the descriptor of the last entry of that name, with both defaults applied.
\<close>

lemma transformBody_FormData:
  "transformBody P (JFormData fd) hdrs
     = no_body\<lparr>multipart := Some (JObject (foldl fetch_multipart_field [] fd))\<rparr>
   \<and> map_of (foldl fetch_multipart_field [] fd)
     = map_of (rev (map (\<lambda>kv. (fst kv, specified_payload (snd kv))) fd))"
  by (simp add: transformBody_def nullish_def map_of_foldl_fetch_multipart)

text \<open>
  C7.  The axios-style codec does not: for a form collection holding a blob whose type is
  unset, \<open>transformData\<close> produces the descriptor with an empty \<^verbatim>\<open>mimeType\<close>, where
  \<open>transformBody\<close> on the same collection produces \<^verbatim>\<open>application/octet-stream\<close>.
\<close>

theorem transformData_untyped_blob_mimeType:
  "body_options.multipart (transformData platform0 (cfg0\<lparr>config.data := upload\<rparr>))
     = Some (JObject [(''note'', JString ''hello''),
                      (''file'', JObject [(''name'', JString ''blob''), (''mimeType'', JString ''''),
                                         (''buffer'', JBlob untyped_blob)])])
   \<and> body_options.multipart (transformBody platform0 upload None)
     = Some (JObject [(''note'', JString ''hello''),
                      (''file'', JObject [(''name'', JString ''blob''),
                                         (''mimeType'', JString ''application/octet-stream''),
                                         (''buffer'', JBlob untyped_blob)])])"
  by (simp add: transformData_def transformBody_def cfg0_def upload_def untyped_blob_def nullish_def
      no_body_def multipart_field_def fetch_multipart_field_def file_payload_def payload_name_def
      Let_def)

section \<open>Query parameters\<close>

lemma set_obj_set: "set (obj_set k v ps) \<subseteq> insert (k, v) (set ps)"
  by (induction ps) auto

lemma put_scalar_values:
  "list_all (\<lambda>kv. \<not> nullish (snd kv)) acc \<Longrightarrow> list_all (\<lambda>kv. \<not> nullish (snd kv)) (put_scalar P acc kv)"
proof -
  assume acc: "list_all (\<lambda>kv. \<not> nullish (snd kv)) acc"
  obtain key v where kv: "kv = (key, v)" by (cases kv)
  have "list_all (\<lambda>kv. \<not> nullish (snd kv)) (obj_set key w acc)" if "\<not> nullish w" for w
    using acc that set_obj_set [of key w acc] by (auto simp: list_all_iff)
  then show ?thesis
    using acc kv by (simp add: put_scalar_def nullish_def)
qed

lemma foldl_put_scalar_values:
  "list_all (\<lambda>kv. \<not> nullish (snd kv)) acc \<Longrightarrow>
   list_all (\<lambda>kv. \<not> nullish (snd kv)) (foldl (put_scalar P) acc kvs)"
  by (induction kvs arbitrary: acc) (simp_all add: put_scalar_values)

lemma fromEntries_string_values:
  "list_all (\<lambda>kv. \<not> nullish (snd kv)) acc \<Longrightarrow>
   list_all (\<lambda>kv. \<not> nullish (snd kv))
     (foldl (\<lambda>acc p. obj_set (fst p) (snd p) acc) acc (string_entries ps))"
proof (induction ps arbitrary: acc)
  case Nil
  then show ?case by (simp add: string_entries_def)
next
  case (Cons p ps)
  obtain k s where p: "p = (k, s)" by (cases p)
  have "list_all (\<lambda>kv. \<not> nullish (snd kv)) (obj_set k (JString s) acc)"
    using Cons.prems set_obj_set [of k "JString s" acc] by (auto simp: list_all_iff nullish_def)
  from Cons.IH [OF this] show ?case
    by (simp add: string_entries_def p)
qed

text \<open>
  The parts of C8 that hold: no entry of the translated parameters is null or undefined,
  for either kind of input, and a plain mapping never translates to an empty mapping.
\<close>

lemma transformParams_drops_nullish:
  "transformParams P config = Some ps \<Longrightarrow> list_all (\<lambda>kv. \<not> nullish (snd kv)) ps"
  using foldl_put_scalar_values [of "[]" P] fromEntries_string_values [of "[]"]
  by (auto simp: transformParams_def fromEntries_def Let_def split: if_splits jsval.splits)

lemma transformParams_plain_never_empty:
  "\<forall>qs. config.params config \<noteq> JURLSearchParams qs \<Longrightarrow> transformParams P config \<noteq> Some []"
  by (auto simp: transformParams_def Let_def split: if_splits jsval.splits)

text \<open>
  C8.  The part that fails: an empty \<^verbatim>\<open>URLSearchParams\<close> is truthy and is returned through
  \<^verbatim>\<open>Object.fromEntries\<close> at once, so the translated params field is the empty mapping, where
  an empty plain mapping gives undefined.
\<close>

theorem transformParams_empty_URLSearchParams:
  "transformParams platform0 (cfg0\<lparr>config.params := JURLSearchParams []\<rparr>) = Some []
   \<and> fetch_options.params (snd (adapter_call platform0 None (cfg0\<lparr>config.params := JURLSearchParams []\<rparr>)))
       = Some []
   \<and> transformParams platform0 (cfg0\<lparr>config.params := JObject []\<rparr>) = None"
  by (simp add: transformParams_def adapter_call_def transformRequest_def cfg0_def fromEntries_def
      string_entries_def Let_def)

section \<open>The method the fetch-style entry point forwards\<close>

lemma toUpperCase_empty: "toUpperCase m = [] \<longleftrightarrow> m = []"
  by (simp add: toUpperCase_def)

text \<open>
  C10.  The fetch-style entry point calls the executor once, with the method of the init
  options when one is provided (a non-empty string), otherwise with the method of the
  \<^verbatim>\<open>Request\<close> when the input is one, otherwise with \<^verbatim>\<open>GET\<close>; the string is forwarded as it is,
  whereas the axios-style translator forwards the method in upper case.
\<close>

theorem fetch_method_verbatim:
  "(init = Some i \<and> init_method i = Some m \<and> m \<noteq> []
      \<longrightarrow> map (\<lambda>c. fetch_options.method (snd c))
            (snd (playwrightFetch P requestContext_fetch options input init)) = [Some m])
   \<and> ((init = None \<or> opt_field init_method init = None \<or> opt_field init_method init = Some [])
        \<and> input = InputRequest r
      \<longrightarrow> map (\<lambda>c. fetch_options.method (snd c))
            (snd (playwrightFetch P requestContext_fetch options input init)) = [Some (request_method r)])
   \<and> ((init = None \<or> opt_field init_method init = None \<or> opt_field init_method init = Some [])
        \<and> (input = InputString u \<or> input = InputURL u)
      \<longrightarrow> map (\<lambda>c. fetch_options.method (snd c))
            (snd (playwrightFetch P requestContext_fetch options input init)) = [Some ''GET''])
   \<and> (config.method config = Some m \<and> m \<noteq> []
      \<longrightarrow> fetch_options.method (snd (adapter_call P adapterOptions config)) = Some (toUpperCase m))"
  by (auto simp: playwrightFetch_def fetch_call_def adapter_call_def transformRequest_def Let_def
      toUpperCase_empty split: sum.splits)

theorem fetch_method_verbatim_witness:
  "init_method init_patch = Some ''patch''
   \<and> map (\<lambda>c. fetch_options.method (snd c))
        (snd (playwrightFetch platform0 exec_not_found None (InputRequest request_delete) (Some init_patch)))
       = [Some ''patch'']
   \<and> map (\<lambda>c. fetch_options.method (snd c))
        (snd (playwrightFetch platform0 exec_not_found None (InputRequest request_delete) None))
       = [Some ''DELETE'']
   \<and> map (\<lambda>c. fetch_options.method (snd c))
        (snd (playwrightFetch platform0 exec_not_found None (InputString ''https://api.example.com/users'') None))
       = [Some ''GET'']
   \<and> config.method (cfg0\<lparr>config.method := Some ''patch''\<rparr>) = Some ''patch''
   \<and> fetch_options.method (snd (adapter_call platform0 None (cfg0\<lparr>config.method := Some ''patch''\<rparr>)))
       = Some ''PATCH''"
  using fetch_method_verbatim
      [where init = "Some init_patch" and i = init_patch and m = "''patch''" and P = platform0
         and requestContext_fetch = exec_not_found and options = None
         and input = "InputRequest request_delete" and r = request_delete
         and config = "cfg0\<lparr>config.method := Some ''patch''\<rparr>" and adapterOptions = None
         and u = "''x''"]
    fetch_method_verbatim
      [where init = None and i = init_patch and m = "''patch''" and P = platform0
         and requestContext_fetch = exec_not_found and options = None
         and input = "InputRequest request_delete" and r = request_delete
         and config = cfg0 and adapterOptions = None and u = "''x''"]
    fetch_method_verbatim
      [where init = None and i = init_patch and m = "''patch''" and P = platform0
         and requestContext_fetch = exec_not_found and options = None
         and input = "InputString ''https://api.example.com/users''" and r = request_delete
         and config = cfg0 and adapterOptions = None and u = "''https://api.example.com/users''"]
  by (simp add: init_patch_def request_delete_def cfg0_def toUpperCase_def upper_of_def)

end
